theory Spec2Isabelle
  imports Complex_Main "HOL-Library.Sublist" "HOL-Library.Log_Nat"
begin

section \<open>JavaScript strings\<close>

text \<open>
  The Worker in \<^verbatim>\<open>src/workers/agent.ts\<close> is TypeScript. A JavaScript string is a sequence
  of UTF-16 code units; it is modelled by \<^typ>\<open>string\<close>, one \<^typ>\<open>char\<close> per code unit, which
  covers the code units \<open>0x00\<close> to \<open>0xFF\<close>. All literals of the source are ASCII.
\<close>

definition isWhiteSpace :: "char \<Rightarrow> bool" where
  \<comment> \<open>ECMAScript \<open>WhiteSpace\<close> and \<open>LineTerminator\<close> code points below \<open>0x100\<close>:
      TAB, LF, VT, FF, CR, SP, NBSP\<close>
  "isWhiteSpace c = (c \<in> set [CHR 0x09, CHR 0x0A, CHR 0x0B, CHR 0x0C, CHR 0x0D, CHR 0x20, CHR 0xA0])"

definition trim :: "string \<Rightarrow> string" where
  \<comment> \<open>\<open>String.prototype.trim\<close>\<close>
  "trim s = rev (dropWhile isWhiteSpace (rev (dropWhile isWhiteSpace s)))"

definition endsWith :: "string \<Rightarrow> string \<Rightarrow> bool" where
  \<comment> \<open>\<open>s.endsWith(x)\<close>\<close>
  "endsWith s x = suffix x s"

definition str_includes :: "string \<Rightarrow> string \<Rightarrow> bool" where
  \<comment> \<open>\<open>s.includes(x)\<close>\<close>
  "str_includes s x = sublist x s"

definition join :: "string \<Rightarrow> string list \<Rightarrow> string" where
  \<comment> \<open>\<open>Array.prototype.join\<close> on an array of strings: \<open>join sep xs\<close> is \<open>xs.join(sep)\<close>\<close>
  "join sep xs = (case xs of [] \<Rightarrow> [] | x # rest \<Rightarrow> x @ concat (map (\<lambda>y. sep @ y) rest))"



section \<open>JavaScript numbers\<close>

text \<open>
  A Number is an IEEE 754 binary64 value. A finite one is modelled by its exact value, a
  rational; the two zeros are not told apart (no operation of the Worker separates them:
  both print as \<open>0\<close>, both are falsy, and \<open>toFixed\<close> prints no sign for \<open>-0\<close>).
  Every double is a \<^typ>\<open>rat\<close>, so what is proved for all rationals holds for all doubles.
\<close>

datatype jsnum = Finite rat | NaN | PosInfinity | NegInfinity

definition digit_char :: "int \<Rightarrow> char" where
  "digit_char d = ''0123456789'' ! nat (d mod 10)"

function digits :: "int \<Rightarrow> string" where
  \<comment> \<open>the decimal digits of a non-negative integer, most significant first\<close>
  "digits n = (if n < 10 then [digit_char n] else digits (n div 10) @ [digit_char (n mod 10)])"
  by pat_completeness auto
termination
  by (relation "measure nat") auto

declare digits.simps [simp del]

function declen :: "int \<Rightarrow> int" where
  \<comment> \<open>the number of decimal digits of a positive integer\<close>
  "declen n = (if 0 < n then declen (n div 10) + 1 else 0)"
  by pat_completeness auto
termination
  by (relation "measure nat") auto

declare declen.simps [simp del]

definition round_half_even :: "rat \<Rightarrow> int" where
  "round_half_even r =
     (let f = \<lfloor>r\<rfloor>; d = r - of_int f
      in if d < 1 / 2 then f else if 1 / 2 < d then f + 1 else if even f then f else f + 1)"

definition floor_log2 :: "rat \<Rightarrow> int" where
  \<comment> \<open>\<open>\<lfloor>log\<^sub>2 q\<rfloor>\<close> for \<open>q > 0\<close>: estimated from the bit lengths, then adjusted\<close>
  "floor_log2 q =
     (let (n, d) = quotient_of q; l = bitlen n - bitlen d
      in if 2 powi l \<le> q then l else l - 1)"

definition floor_log10 :: "rat \<Rightarrow> int" where
  \<comment> \<open>\<open>\<lfloor>log\<^sub>1\<^sub>0 q\<rfloor>\<close> for \<open>q > 0\<close>\<close>
  "floor_log10 q =
     (let (n, d) = quotient_of q; l = declen n - declen d
      in if 10 powi l \<le> q then l else l - 1)"

definition to_double :: "rat \<Rightarrow> jsnum" where
  \<comment> \<open>the Number value for a real: round to nearest binary64, ties to even; the mantissa
      \<open>m\<close> has at most 53 bits, the exponent \<open>e\<close> is at least \<open>-1074\<close>, and a result of
      \<open>2\<^sup>1\<^sup>0\<^sup>2\<^sup>4\<close> or more is an infinity\<close>
  "to_double q =
     (if q = 0 then Finite 0
      else let a = \<bar>q\<bar>;
               e = max (floor_log2 a - 52) (- 1074);
               m = round_half_even (a / 2 powi e);
               v = of_int m * 2 powi e
           in if 1024 < bitlen m + e then (if q < 0 then NegInfinity else PosInfinity)
              else Finite (if q < 0 then - v else v))"

definition digit_candidates :: "rat \<Rightarrow> int \<Rightarrow> (int \<times> int) list" where
  \<comment> \<open>the pairs \<open>(s, n)\<close> with \<open>10\<^sup>k\<^sup>-\<^sup>1 \<le> s < 10\<^sup>k\<close> whose value \<open>s \<times> 10\<^sup>n\<^sup>-\<^sup>k\<close> is the double \<open>x\<close>
      (step 5 of \<open>Number::toString\<close>)\<close>
  "digit_candidates x k =
     (let n0 = floor_log10 x + 1
      in [(s, n). n \<leftarrow> [n0, n0 + 1],
                  s \<leftarrow> [\<lfloor>x / 10 powi (n - k)\<rfloor>, \<lfloor>x / 10 powi (n - k)\<rfloor> + 1],
                  10 powi (k - 1) \<le> (of_int s :: rat) \<and> (of_int s :: rat) < 10 powi k
                    \<and> to_double (of_int s * 10 powi (n - k)) = Finite x])"

definition closest_digits :: "rat \<Rightarrow> int \<Rightarrow> (int \<times> int) list \<Rightarrow> int \<times> int" where
  "closest_digits x k cs =
     fold (\<lambda>c best.
             let err = (\<lambda>(s, n). \<bar>of_int s * 10 powi (n - k) - x\<bar>)
             in if err c < err best \<or> (err c = err best \<and> even (fst c) \<and> odd (fst best)) then c else best)
          (tl cs) (hd cs)"

fun search_digits :: "rat \<Rightarrow> nat \<Rightarrow> int \<Rightarrow> int \<times> int" where
  \<comment> \<open>the least \<open>k\<close> that has a candidate; 17 digits always identify a double\<close>
  "search_digits x 0 k = (round_half_even (x / 10 powi (floor_log10 x + 1 - 17)), floor_log10 x + 1)"
| "search_digits x (Suc fuel) k =
     (case digit_candidates x k of
        [] \<Rightarrow> search_digits x fuel (k + 1)
      | c # cs \<Rightarrow> closest_digits x k (c # cs))"

definition shortest_digits :: "rat \<Rightarrow> int \<times> int" where
  "shortest_digits x = search_digits x 17 1"

definition positive_toString :: "rat \<Rightarrow> string" where
  \<comment> \<open>steps 6 to 10 of \<open>Number::toString\<close>, radix 10\<close>
  "positive_toString x =
     (let (s, n) = shortest_digits x; ds = digits s; k = int (length ds)
      in if k \<le> n \<and> n \<le> 21 then ds @ replicate (nat (n - k)) CHR ''0''
         else if 0 < n \<and> n \<le> 21 then take (nat n) ds @ ''.'' @ drop (nat n) ds
         else if - 6 < n \<and> n \<le> 0 then ''0.'' @ replicate (nat (- n)) CHR ''0'' @ ds
         else let e = n - 1; es = (if e < 0 then ''-'' else ''+'') @ digits \<bar>e\<bar>
              in if k = 1 then ds @ ''e'' @ es else take 1 ds @ ''.'' @ drop 1 ds @ ''e'' @ es)"

definition Number_toString :: "jsnum \<Rightarrow> string" where
  \<comment> \<open>\<open>Number::toString(x, 10)\<close>. An integer below \<open>2\<^sup>5\<^sup>3\<close> in magnitude prints as its digits\<close>
  "Number_toString x =
     (case x of
        NaN \<Rightarrow> ''NaN''
      | PosInfinity \<Rightarrow> ''Infinity''
      | NegInfinity \<Rightarrow> ''-Infinity''
      | Finite q \<Rightarrow>
          (if q = 0 then ''0''
           else if \<bar>q\<bar> < 2 ^ 53 \<and> q = of_int \<lfloor>q\<rfloor>
             then (if q < 0 then ''-'' else []) @ digits \<bar>\<lfloor>q\<rfloor>\<bar>
           else (case to_double \<bar>q\<bar> of
                   Finite a \<Rightarrow> (if a = 0 then ''0'' else (if q < 0 then ''-'' else []) @ positive_toString a)
                 | _ \<Rightarrow> (if q < 0 then ''-Infinity'' else ''Infinity''))))"

definition toFixed :: "jsnum \<Rightarrow> nat \<Rightarrow> string" where
  \<comment> \<open>\<open>Number.prototype.toFixed(f)\<close> for \<open>0 \<le> f \<le> 100\<close> (the Worker passes 2): \<open>n\<close> is the
      integer nearest to \<open>x \<times> 10\<^sup>f\<close>, the larger one on a tie\<close>
  "toFixed x f =
     (case x of
        Finite q \<Rightarrow>
          (let s = (if q < 0 then ''-'' else []); a = \<bar>q\<bar>
           in if 10 ^ 21 \<le> a then s @ Number_toString (Finite a)
              else let n = \<lfloor>a * 10 ^ f + 1 / 2\<rfloor>;
                       m = digits n;
                       m = (if f \<noteq> 0 \<and> length m \<le> f then replicate (f + 1 - length m) CHR ''0'' @ m else m);
                       k = length m
                   in if f \<noteq> 0 then s @ take (k - f) m @ ''.'' @ drop (k - f) m else s @ m)
      | _ \<Rightarrow> Number_toString x)"

definition isDigit :: "char \<Rightarrow> bool" where
  "isDigit c = (c \<in> set ''0123456789'')"

definition decimal_value :: "string \<Rightarrow> int" where
  \<comment> \<open>the value of a string of decimal digits\<close>
  "decimal_value ds = foldl (\<lambda>a c. 10 * a + (of_char c - 48)) 0 ds"

definition parse_exponent :: "string \<Rightarrow> int" where
  \<comment> \<open>the value of the \<open>ExponentPart\<close> that starts the string, 0 when there is none\<close>
  "parse_exponent r =
     (case r of
        [] \<Rightarrow> 0
      | c # r1 \<Rightarrow>
          if c = CHR ''e'' \<or> c = CHR ''E''
          then (let neg = prefix ''-'' r1;
                    r2 = (if prefix ''-'' r1 \<or> prefix ''+'' r1 then tl r1 else r1);
                    ds = takeWhile isDigit r2
                in if ds = [] then 0 else if neg then - decimal_value ds else decimal_value ds)
          else 0)"

definition parseFloat_string :: "string \<Rightarrow> jsnum" where
  \<comment> \<open>\<open>parseFloat\<close> on a string: skip leading white space, then the longest prefix that is a
      \<open>StrDecimalLiteral\<close> (sign, \<open>Infinity\<close> or digits with optional fraction and exponent)\<close>
  "parseFloat_string input =
     (let t = dropWhile isWhiteSpace input;
          neg = prefix ''-'' t;
          u = (if prefix ''-'' t \<or> prefix ''+'' t then tl t else t)
      in if prefix ''Infinity'' u then (if neg then NegInfinity else PosInfinity)
         else let ip = takeWhile isDigit u;
                  r1 = dropWhile isDigit u;
                  fp = (if prefix ''.'' r1 then takeWhile isDigit (tl r1) else []);
                  r2 = (if prefix ''.'' r1 then dropWhile isDigit (tl r1) else r1)
              in if ip = [] \<and> fp = [] then NaN
                 else let v = of_int (decimal_value (ip @ fp)) * 10 powi (parse_exponent r2 - int (length fp))
                      in to_double (if neg then - v else v))"

section \<open>JavaScript values\<close>

text \<open>
  The values a result row holds (the relational engine returns strings, numbers and null),
  with \<open>undefined\<close> for a property that is read but absent, and booleans for the envelope.
\<close>

datatype jsval = JUndefined | JNull | JBool bool | JNum jsnum | JStr string

definition ToString :: "jsval \<Rightarrow> string" where
  \<comment> \<open>the conversion of a template literal \<^verbatim>\<open>${v}\<close> and of \<open>String(v)\<close>\<close>
  "ToString v =
     (case v of
        JUndefined \<Rightarrow> ''undefined''
      | JNull \<Rightarrow> ''null''
      | JBool b \<Rightarrow> (if b then ''true'' else ''false'')
      | JNum x \<Rightarrow> Number_toString x
      | JStr s \<Rightarrow> s)"

definition truthy :: "jsval \<Rightarrow> bool" where
  \<comment> \<open>\<open>ToBoolean\<close>\<close>
  "truthy v =
     (case v of
        JUndefined \<Rightarrow> False
      | JNull \<Rightarrow> False
      | JBool b \<Rightarrow> b
      | JNum x \<Rightarrow> x \<noteq> NaN \<and> x \<noteq> Finite 0
      | JStr s \<Rightarrow> s \<noteq> [])"

definition parseFloat :: "jsval \<Rightarrow> jsnum" where
  \<comment> \<open>\<open>parseFloat(v)\<close> parses \<open>ToString(v)\<close>. For a Number that is the Number itself:
      \<open>Number::toString\<close> prints digits that read back as the same double\<close>
  "parseFloat v = (case v of JNum x \<Rightarrow> x | _ \<Rightarrow> parseFloat_string (ToString v))"

type_synonym row = "(string \<times> jsval) list"

text \<open>
  A row is an object whose own properties are its columns, in the order of \<open>Object.keys\<close>.
\<close>

definition keys :: "row \<Rightarrow> string list" where
  \<comment> \<open>\<open>Object.keys(row)\<close>\<close>
  "keys r = map fst r"

definition get :: "row \<Rightarrow> string \<Rightarrow> jsval" where
  \<comment> \<open>\<open>row[key]\<close> and \<open>row.key\<close> for a name that \<open>Object.prototype\<close> does not define\<close>
  "get r k = (case map_of r k of Some v \<Rightarrow> v | None \<Rightarrow> JUndefined)"

section \<open>JSON.stringify\<close>

datatype json = JPrim jsval | JArr "json list" | JObj "(string \<times> json) list"

definition hex_char :: "nat \<Rightarrow> char" where
  "hex_char d = ''0123456789abcdef'' ! (d mod 16)"

definition quote_char :: "char \<Rightarrow> string" where
  \<comment> \<open>one code unit inside \<open>QuoteJSONString\<close>; \<open>0x5C\<close> is the backslash, \<open>0x22\<close> the double quote\<close>
  "quote_char c =
     (if c = CHR 0x08 then [CHR 0x5C, CHR ''b'']
      else if c = CHR 0x09 then [CHR 0x5C, CHR ''t'']
      else if c = CHR 0x0A then [CHR 0x5C, CHR ''n'']
      else if c = CHR 0x0C then [CHR 0x5C, CHR ''f'']
      else if c = CHR 0x0D then [CHR 0x5C, CHR ''r'']
      else if c = CHR 0x22 then [CHR 0x5C, CHR 0x22]
      else if c = CHR 0x5C then [CHR 0x5C, CHR 0x5C]
      else if (of_char c :: nat) < 32
        then [CHR 0x5C, CHR ''u'', CHR ''0'', CHR ''0'', hex_char (of_char c div 16), hex_char (of_char c)]
      else [c])"

definition QuoteJSONString :: "string \<Rightarrow> string" where
  "QuoteJSONString s = [CHR 0x22] @ concat (map quote_char s) @ [CHR 0x22]"

fun SerializeJSONProperty :: "string \<Rightarrow> string \<Rightarrow> json \<Rightarrow> string option" where
  \<comment> \<open>\<open>gap\<close> is the indentation unit (empty for the compact form), \<open>indent\<close> the current
      indentation; \<open>None\<close> is the result \<open>undefined\<close>\<close>
  "SerializeJSONProperty gap indent (JPrim v) =
     (case v of
        JUndefined \<Rightarrow> None
      | JNull \<Rightarrow> Some ''null''
      | JBool b \<Rightarrow> Some (if b then ''true'' else ''false'')
      | JNum x \<Rightarrow> Some (case x of Finite q \<Rightarrow> Number_toString x | _ \<Rightarrow> ''null'')
      | JStr s \<Rightarrow> Some (QuoteJSONString s))"
| "SerializeJSONProperty gap indent (JArr xs) =
     (let stepback = indent;
          indent = indent @ gap;
          partial = map (\<lambda>x. case SerializeJSONProperty gap indent x of None \<Rightarrow> ''null'' | Some t \<Rightarrow> t) xs
      in Some (if partial = [] then ''[]''
               else if gap = [] then ''['' @ join '','' partial @ '']''
               else ''['' @ [CHR 0x0A] @ indent @ join ('','' @ [CHR 0x0A] @ indent) partial
                      @ [CHR 0x0A] @ stepback @ '']''))"
| "SerializeJSONProperty gap indent (JObj ps) =
     (let stepback = indent;
          indent = indent @ gap;
          partial = concat (map (\<lambda>p. case SerializeJSONProperty gap indent (snd p) of
                                          None \<Rightarrow> []
                                        | Some t \<Rightarrow> [QuoteJSONString (fst p) @ '':''
                                                      @ (if gap = [] then [] else '' '') @ t]) ps)
      in Some (if partial = [] then ''{}''
               else if gap = [] then ''{'' @ join '','' partial @ ''}''
               else ''{'' @ [CHR 0x0A] @ indent @ join ('','' @ [CHR 0x0A] @ indent) partial
                      @ [CHR 0x0A] @ stepback @ ''}''))"

definition JSON_stringify :: "json \<Rightarrow> nat \<Rightarrow> string" where
  \<comment> \<open>\<open>JSON.stringify(v, null, space)\<close>; \<open>JSON.stringify(v)\<close> is \<open>JSON_stringify v 0\<close>. The
      Worker never passes \<open>undefined\<close>, for which JavaScript returns \<open>undefined\<close>\<close>
  "JSON_stringify v space =
     (case SerializeJSONProperty (replicate (min space 10) CHR '' '') [] v of
        Some s \<Rightarrow> s
      | None \<Rightarrow> ''undefined'')"

definition row_json :: "row \<Rightarrow> json" where
  "row_json r = JObj (map (\<lambda>(k, v). (k, JPrim v)) r)"

definition rows_json :: "row list \<Rightarrow> json" where
  "rows_json rs = JArr (map row_json rs)"

section \<open>The Worker\<close>

subsection \<open>Bindings, calls and state\<close>

text \<open>
  The Worker reaches the outside through its two bindings: \<open>env.AI.run\<close>, the hosted
  language model, and \<open>env.DB.prepare(sql).all()\<close>, the relational engine. Both are
  parameters of the model. The model binding maps a request to the text of the \<open>response\<close>
  field or to the value it throws. The engine maps a statement and the state of the
  database to the new state and to the \<open>results\<close> field (\<open>None\<close> when the field is absent)
  or the value thrown. Every call is recorded in the order it is made.
  Console output is not modelled.
\<close>

record chat_message =
  role :: string
  content :: string

record ai_request =
  model :: string
  messages :: "chat_message list"
  temperature :: rat
  max_tokens :: nat

text \<open>
  A thrown value can be any JavaScript value. \<open>JsError m\<close> is an Error object (an \<open>Error\<close>,
  a \<open>TypeError\<close>, a \<open>SyntaxError\<close>) whose message is \<open>m\<close>; \<open>JsThrown v\<close> is any other thrown
  value, for instance \<open>null\<close>, a string or an object without a message.
\<close>

datatype js_error = JsError string | JsThrown json

fun json_ToString :: "json \<Rightarrow> string" where
  \<comment> \<open>the conversion of a template literal for any value: an array joins its elements with
      commas (\<open>null\<close> and \<open>undefined\<close> as empty strings), another object is
      \<open>[object Object]\<close>\<close>
  "json_ToString (JPrim v) = ToString v"
| "json_ToString (JArr xs) =
     join '','' (map (\<lambda>x. if x = JPrim JNull \<or> x = JPrim JUndefined then [] else json_ToString x) xs)"
| "json_ToString (JObj ps) = ''[object Object]''"

definition get_message :: "js_error \<Rightarrow> js_error + json" where
  \<comment> \<open>the property read \<open>error.message\<close> in a \<open>catch\<close> block: it throws a TypeError (the text
      is the engine's) when the thrown value is \<open>null\<close> or \<open>undefined\<close>, and is \<open>undefined\<close>
      when the value has no such property\<close>
  "get_message error =
     (case error of
        JsError m \<Rightarrow> Inr (JPrim (JStr m))
      | JsThrown (JPrim JNull) \<Rightarrow>
          Inl (JsError ''Cannot read properties of null (reading 'message')'')
      | JsThrown (JPrim JUndefined) \<Rightarrow>
          Inl (JsError ''Cannot read properties of undefined (reading 'message')'')
      | JsThrown (JObj ps) \<Rightarrow> Inr (case map_of ps ''message'' of Some m \<Rightarrow> m | None \<Rightarrow> JPrim JUndefined)
      | JsThrown _ \<Rightarrow> Inr (JPrim JUndefined))"

datatype call = AiRun ai_request | DbAll string

record 'db env =
  AI :: "ai_request \<Rightarrow> js_error + string"
  DB :: "string \<Rightarrow> 'db \<Rightarrow> (js_error + row list option) \<times> 'db"

record 'db world =
  db :: 'db
  calls :: "call list"

definition SYSTEM_PROMPT :: string where
  "SYSTEM_PROMPT =
     ''You are a baseball statistics assistant that translates user questions into SQL queries.\<newline>''
     @ ''\<newline>''
     @ ''DATABASE SCHEMA:\<newline>''
     @ ''- people: playerID (TEXT PRIMARY KEY), nameFirst (TEXT), nameLast (TEXT)\<newline>''
     @ ''- teams: yearID (INT), teamID (TEXT), name (TEXT), W (INT), L (INT), G (INT)\<newline>''
     @ ''- pitching: playerID (TEXT), yearID (INT), stint (INT), teamID (TEXT), W (INT), L (INT), G (INT), GS (INT), SV (INT), IPouts (INT), SO (INT), BB (INT), ERA (REAL), H (INT), ER (INT), HR (INT)\<newline>''
     @ ''\<newline>''
     @ ''RULES:\<newline>''
     @ ''1. Use SQLite syntax\<newline>''
     @ ''2. Always include LIMIT clause to prevent excessive results (default LIMIT 10)\<newline>''
     @ ''3. Use proper JOINs when querying across tables\<newline>''
     @ ''4. Match player names with LIKE for flexibility (e.g., nameLast LIKE '%deGrom%')\<newline>''
     @ ''5. Use aggregate functions (AVG, SUM, MAX, MIN) for statistics\<newline>''
     @ ''6. Always filter by yearID when year is mentioned\<newline>''
     @ ''7. teamID uses abbreviations (e.g., 'SEA', 'NYA', 'LAD', 'HOU', 'WAS' for Nationals)\<newline>''
     @ ''8. ERA is stored as a REAL number, lower is better\<newline>''
     @ ''9. IPouts represents innings pitched as outs (divide by 3 for innings)\<newline>''
     @ ''\<newline>''
     @ ''RESPONSE FORMAT:\<newline>''
     @ ''Return ONLY the SQL query without any explanation or markdown formatting.\<newline>''
     @ ''\<newline>''
     @ ''EXAMPLES:\<newline>''
     @ ''Q: Who had the lowest ERA in 2023?\<newline>''
     @ ''A: SELECT p.playerID, pe.nameFirst, pe.nameLast, p.ERA FROM pitching p JOIN people pe ON p.playerID = pe.playerID WHERE p.yearID = 2023 AND p.GS >= 10 ORDER BY p.ERA ASC LIMIT 1;\<newline>''
     @ ''\<newline>''
     @ ''Q: Show top 5 strikeout leaders for SEA in 2019\<newline>''
     @ ''A: SELECT p.playerID, pe.nameFirst, pe.nameLast, p.SO FROM pitching p JOIN people pe ON p.playerID = pe.playerID WHERE p.teamID = 'SEA' AND p.yearID = 2019 ORDER BY p.SO DESC LIMIT 5;\<newline>''
     @ ''\<newline>''
     @ ''Q: Summarize Jacob deGrom ERA by year\<newline>''
     @ ''A: SELECT p.yearID, p.teamID, p.ERA, p.W, p.L FROM pitching p JOIN people pe ON p.playerID = pe.playerID WHERE pe.nameLast LIKE '%deGrom%' ORDER BY p.yearID;''"

subsection \<open>generateSQL\<close>

definition matchFence :: "string \<Rightarrow> string \<Rightarrow> nat option" where
  \<comment> \<open>the length of the match of the regular expression \<open>lit\<close> followed by \<open>\n?\<close> at the start
      of \<open>s\<close> (the optional newline is greedy)\<close>
  "matchFence lit s =
     (if prefix lit s
      then (if prefix [CHR 0x0A] (drop (length lit) s) then Some (length lit + 1) else Some (length lit))
      else None)"

function replace_global :: "string \<Rightarrow> string \<Rightarrow> string" where
  \<comment> \<open>\<open>s.replace(/lit\n?/g, '')\<close> for a non-empty literal: the matches are found from left
      to right, each search starting where the previous match ended\<close>
  "replace_global lit s =
     (if lit = [] \<or> s = [] then s
      else (case matchFence lit s of
              Some n \<Rightarrow> replace_global lit (drop n s)
            | None \<Rightarrow> hd s # replace_global lit (tl s)))"
  by pat_completeness auto
termination
  by (relation "measure (\<lambda>(lit, s). length s)") (auto simp: matchFence_def split: if_splits)

declare replace_global.simps [simp del]

definition generateSQL_request :: "string \<Rightarrow> ai_request" where
  \<comment> \<open>the argument of \<open>ai.run\<close> in \<open>generateSQL\<close> (lines 107 to 116)\<close>
  "generateSQL_request userQuery =
     (let messages = [\<lparr>role = ''system'', content = SYSTEM_PROMPT\<rparr>,
                      \<lparr>role = ''user'', content = userQuery\<rparr>]
      in \<lparr>model = ''@cf/meta/llama-3.3-70b-instruct-fp8-fast'', messages = messages,
          temperature = 1 / 10, max_tokens = 500\<rparr>)"

definition generateSQL :: "'db env \<Rightarrow> string \<Rightarrow> 'db world \<Rightarrow> (js_error + string) \<times> 'db world" where
  "generateSQL env userQuery w =
     (let request = generateSQL_request userQuery;
          w = w\<lparr>calls := calls w @ [AiRun request]\<rparr>
      in case AI env request of
           Inl error \<Rightarrow> (Inl error, w)
         | Inr response \<Rightarrow>
             (let sql = trim response;
                  sql = replace_global ''```'' (replace_global ''```sql'' sql);
                  sql = trim sql;
                  sql = (if \<not> endsWith sql '';'' then sql @ '';'' else sql)
              in (Inr sql, w)))"

subsection \<open>executeQuery\<close>

definition executeQuery :: "'db env \<Rightarrow> string \<Rightarrow> 'db world \<Rightarrow> (js_error + row list) \<times> 'db world" where
  \<comment> \<open>the \<open>catch\<close> block reads \<open>error.message\<close> to build the new Error; when that read throws,
      its TypeError is what propagates\<close>
  "executeQuery env sql w =
     (let (result, d) = DB env sql (db w);
          w = w\<lparr>db := d, calls := calls w @ [DbAll sql]\<rparr>
      in case result of
           Inl error \<Rightarrow>
             (case get_message error of
                Inl type_error \<Rightarrow> (Inl type_error, w)
              | Inr m \<Rightarrow> (Inl (JsError (''Database query failed: '' @ json_ToString m)), w))
         | Inr results \<Rightarrow> (Inr (case results of None \<Rightarrow> [] | Some rows \<Rightarrow> rows), w))"

subsection \<open>The fallback formatter\<close>

definition formatTable :: "row list \<Rightarrow> string" where
  "formatTable results =
     (if length results = 0 then ''No results found.''
      else let ks = keys (hd results);
               header = join '' | '' ks;
               separator = join '' | '' (map (\<lambda>_. ''---'') ks);
               rows = map (\<lambda>row.
                        join '' | ''
                          (map (\<lambda>key. let val = get row key
                                      in if val = JNull then []
                                         else (case val of JNum x \<Rightarrow> toFixed x 2 | _ \<Rightarrow> ToString val))
                               ks))
                        results
           in join [CHR 0x0A] ([header, separator] @ rows))"

definition formatSimple :: "row list \<Rightarrow> string \<Rightarrow> string" where
  "formatSimple results userQuery =
     (if length results = 0 then ''No results found.''
      else if length results = 1 then
        (let row = hd results; ks = keys row
         in if length ks = 1 then
              (let key = hd ks; val = get row key
               in if val = JNull \<or> val = JUndefined then ''No data available.''
                  else if str_includes key ''SUM('' then ''The total is '' @ ToString val @ ''.''
                  else if str_includes key ''AVG(''
                    then ''The average is '' @ toFixed (parseFloat val) 2 @ ''.''
                  else if str_includes key ''COUNT('' then ''The count is '' @ ToString val @ ''.''
                  else ''Result: '' @ key @ '' = '' @ ToString val)
            else
              (let parts = [];
                   parts = (if truthy (get row ''nameFirst'') \<and> truthy (get row ''nameLast'')
                            then parts @ [ToString (get row ''nameFirst'') @ '' ''
                                            @ ToString (get row ''nameLast'')]
                            else parts);
                   parts = (if get row ''ERA'' \<noteq> JUndefined
                            then parts @ [''ERA: '' @ toFixed (parseFloat (get row ''ERA'')) 2]
                            else parts);
                   parts = (if get row ''SO'' \<noteq> JUndefined
                            then parts @ [ToString (get row ''SO'') @ '' SO'']
                            else parts);
                   parts = (if get row ''W'' \<noteq> JUndefined
                            then parts @ [ToString (get row ''W'') @ '' W'']
                            else parts);
                   parts = (if truthy (get row ''yearID'')
                            then parts @ [''('' @ ToString (get row ''yearID'') @ '')'']
                            else parts)
               in if length parts > 0 then join '' '' parts else JSON_stringify (row_json row) 0))
      else formatTable results)"

subsection \<open>formatResponse\<close>

definition no_results_message :: string where
  \<comment> \<open>the template literal returned for an empty result (lines 146 to 151)\<close>
  "no_results_message =
     ''I couldn't find any data matching your question. This could be because:\<newline>''
     @ ''- The player name might be spelled differently\<newline>''
     @ ''- The year might not be in our dataset (we have data from 2018-2024)\<newline>''
     @ ''- The team abbreviation might need adjustment (e.g., SEA for Seattle, NYA for Yankees, WAS for Nationals)\<newline>''
     @ ''\<newline>''
     @ ''Would you like to try rephrasing your question?''"

definition formatResponse_request :: "string \<Rightarrow> row list \<Rightarrow> string \<Rightarrow> ai_request" where
  \<comment> \<open>the argument of \<open>ai.run\<close> in \<open>formatResponse\<close> (lines 154 to 177)\<close>
  "formatResponse_request userQuery results sql =
     (let resultsString = JSON_stringify (rows_json results) 2;
          prompt = ''The user asked: '' @ [CHR 0x22] @ userQuery @ [CHR 0x22] @ ''\<newline>''
                   @ ''\<newline>''
                   @ ''The SQL query executed was: '' @ sql @ ''\<newline>''
                   @ ''\<newline>''
                   @ ''The database returned these results:\<newline>''
                   @ resultsString @ ''\<newline>''
                   @ ''\<newline>''
                   @ ''Please provide a natural, conversational answer in 1-3 clear sentences. Be specific with numbers, names, and statistics.'';
          messages = [\<lparr>role = ''system'',
                        content = ''You are a helpful baseball statistics assistant. Answer questions clearly and concisely based on the data provided.''\<rparr>,
                      \<lparr>role = ''user'', content = prompt\<rparr>]
      in \<lparr>model = ''@cf/meta/llama-3.3-70b-instruct-fp8-fast'', messages = messages,
          temperature = 3 / 10, max_tokens = 300\<rparr>)"

definition formatResponse ::
  "'db env \<Rightarrow> string \<Rightarrow> row list \<Rightarrow> string \<Rightarrow> 'db world \<Rightarrow> string \<times> 'db world" where
  "formatResponse env userQuery results sql w =
     (if length results = 0 then (no_results_message, w)
      else let request = formatResponse_request userQuery results sql;
               w = w\<lparr>calls := calls w @ [AiRun request]\<rparr>
           in case AI env request of
                Inr response \<Rightarrow>
                  (let answer = trim response
                   in if answer = [] \<or> length answer < 10
                      then (formatSimple results userQuery, w)
                      else (answer, w))
              | Inl error \<Rightarrow> (formatSimple results userQuery, w))"

subsection \<open>The fetch handler\<close>

record request =
  http_method :: string
  pathname :: string
  json_body :: "js_error + json"

text \<open>
  \<open>http_method\<close> is \<open>request.method\<close>, \<open>pathname\<close> is \<open>new URL(request.url).pathname\<close>, and
  \<open>json_body\<close> is the outcome of \<open>await request.json()\<close>: the parsed body, or the value
  thrown when the body is not JSON.
\<close>

record response =
  status :: nat
  headers :: "(string \<times> string) list"
  body :: "string option"

definition new_Response :: "string option \<Rightarrow> nat \<Rightarrow> (string \<times> string) list \<Rightarrow> response" where
  \<comment> \<open>\<open>new Response(body, {status, headers})\<close>: a string body without a content type gets
      the default one\<close>
  "new_Response b st hs =
     \<lparr>status = st,
      headers = (if b \<noteq> None \<and> ''Content-Type'' \<notin> set (map fst hs)
                 then hs @ [(''Content-Type'', ''text/plain;charset=UTF-8'')] else hs),
      body = b\<rparr>"

definition jsonResponse :: "json \<Rightarrow> nat \<Rightarrow> response" where
  "jsonResponse data st =
     new_Response (Some (JSON_stringify data 0)) st
       [(''Content-Type'', ''application/json''), (''Access-Control-Allow-Origin'', ''*'')]"

definition typeof :: "json \<Rightarrow> string" where
  "typeof v =
     (case v of
        JPrim JUndefined \<Rightarrow> ''undefined''
      | JPrim JNull \<Rightarrow> ''object''
      | JPrim (JBool b) \<Rightarrow> ''boolean''
      | JPrim (JNum x) \<Rightarrow> ''number''
      | JPrim (JStr s) \<Rightarrow> ''string''
      | JArr xs \<Rightarrow> ''object''
      | JObj ps \<Rightarrow> ''object'')"

definition json_truthy :: "json \<Rightarrow> bool" where
  "json_truthy v = (case v of JPrim p \<Rightarrow> truthy p | _ \<Rightarrow> True)"

definition destructure_message :: "json \<Rightarrow> js_error + json" where
  \<comment> \<open>\<open>const { message } = v\<close>: a TypeError when \<open>v\<close> is \<open>null\<close> or \<open>undefined\<close> (the text
      is the engine's), the own property of an object, and \<open>undefined\<close> when the property
      is absent or \<open>v\<close> is an array, a string, a number or a boolean\<close>
  "destructure_message v =
     (case v of
        JPrim JNull \<Rightarrow>
          Inl (JsError ''Cannot destructure property 'message' of '(intermediate value)' as it is null.'')
      | JPrim JUndefined \<Rightarrow>
          Inl (JsError ''Cannot destructure property 'message' of '(intermediate value)' as it is undefined.'')
      | JObj ps \<Rightarrow> Inr (case map_of ps ''message'' of Some m \<Rightarrow> m | None \<Rightarrow> JPrim JUndefined)
      | _ \<Rightarrow> Inr (JPrim JUndefined))"

definition fetch_chat :: "'db env \<Rightarrow> request \<Rightarrow> 'db world \<Rightarrow> (js_error + response) \<times> 'db world" where
  \<comment> \<open>the \<open>try\<close> block of the \<open>/api/chat\<close> route (lines 62 to 83); \<open>Inl\<close> is a thrown error\<close>
  "fetch_chat env request w =
     (case json_body request of
        Inl error \<Rightarrow> (Inl error, w)
      | Inr parsed \<Rightarrow>
          (case destructure_message parsed of
             Inl error \<Rightarrow> (Inl error, w)
           | Inr msg \<Rightarrow>
               if \<not> json_truthy msg \<or> typeof msg \<noteq> ''string''
               then (Inr (jsonResponse (JObj [(''error'', JPrim (JStr ''Invalid message''))]) 400), w)
               else
                 (let message = (case msg of JPrim v \<Rightarrow> ToString v | _ \<Rightarrow> []);
                      (r, w) = generateSQL env message w
                  in case r of
                       Inl error \<Rightarrow> (Inl error, w)
                     | Inr sqlQuery \<Rightarrow>
                         (let (r, w) = executeQuery env sqlQuery w
                          in case r of
                               Inl error \<Rightarrow> (Inl error, w)
                             | Inr queryResults \<Rightarrow>
                                 (let (response, w) = formatResponse env message queryResults sqlQuery w
                                  in (Inr (jsonResponse
                                             (JObj [(''success'', JPrim (JBool True)),
                                                    (''message'', JPrim (JStr response)),
                                                    (''sql'', JPrim (JStr sqlQuery)),
                                                    (''results'', rows_json queryResults)])
                                             200), w))))))"

definition fetch ::
  "'db env \<Rightarrow> string \<Rightarrow> request \<Rightarrow> 'db world \<Rightarrow> (js_error + response) \<times> 'db world" where
  \<comment> \<open>\<open>HTML_CONTENT\<close> is the static document, a literal of some 200 lines. \<open>Inr\<close> is the
      Response returned; \<open>Inl\<close> is an exception that escapes the handler, which happens when
      the \<open>catch\<close> block itself throws on reading \<open>error.message\<close>\<close>
  "fetch env HTML_CONTENT request w =
     (if http_method request = ''OPTIONS''
      then (Inr (new_Response None 200
                   [(''Access-Control-Allow-Origin'', ''*''),
                    (''Access-Control-Allow-Methods'', ''GET, POST, OPTIONS''),
                    (''Access-Control-Allow-Headers'', ''Content-Type'')]), w)
      else if pathname request = ''/api/chat'' \<and> http_method request = ''POST''
      then (case fetch_chat env request w of
              (Inr resp, w) \<Rightarrow> (Inr resp, w)
            | (Inl error, w) \<Rightarrow>
                (case get_message error of
                   Inl type_error \<Rightarrow> (Inl type_error, w)
                 | Inr m \<Rightarrow>
                     (Inr (jsonResponse
                             (JObj [(''success'', JPrim (JBool False)),
                                    (''error'', if json_truthy m then m
                                                else JPrim (JStr ''An error occurred''))])
                             500), w)))
      else if pathname request = ''/'' \<or> pathname request = ''/index.html''
      then (Inr (new_Response (Some HTML_CONTENT) 200 [(''Content-Type'', ''text/html'')]), w)
      else (Inr (new_Response (Some ''Not found'') 404 []), w))"

section \<open>Predicates of the properties\<close>

definition two_decimal_places :: "string \<Rightarrow> bool" where
  \<comment> \<open>an optional minus sign, at least one digit, a point, exactly two digits\<close>
  "two_decimal_places s =
     (let t = (if prefix ''-'' s then tl s else s); n = length t
      in 4 \<le> n \<and> t ! (n - 3) = CHR ''.'' \<and> list_all isDigit (take (n - 3) t)
           \<and> list_all isDigit (drop (n - 2) t))"

definition plain :: "string \<Rightarrow> bool" where
  \<comment> \<open>a text with no vertical bar and no line feed, the two characters the table is laid
      out with\<close>
  "plain s = (CHR ''|'' \<notin> set s \<and> CHR 0x0A \<notin> set s)"

definition status_of :: "js_error + response \<Rightarrow> nat option" where
  \<comment> \<open>the status of the Response the handler returned, if it returned one\<close>
  "status_of r = (case r of Inl error \<Rightarrow> None | Inr resp \<Rightarrow> Some (status resp))"

definition db_calls :: "call list \<Rightarrow> string list" where
  \<comment> \<open>the statements handed to the engine, in order\<close>
  "db_calls cs = concat (map (\<lambda>c. case c of DbAll sql \<Rightarrow> [sql] | AiRun request \<Rightarrow> []) cs)"

section \<open>Sample bindings\<close>

text \<open>
  Concrete bindings and requests at which the theorems below are instantiated. The sample
  model answers the synthesis request (the one with the budget of 500 tokens) with a fenced
  statement and the summarization request with an empty text, the degradation that the
  fallback formatter exists for. The sample engine keeps the number of rows of the table
  \<open>people\<close> as its state: a \<open>SELECT\<close> returns one aggregate row and leaves the state alone,
  the statement \<open>DELETE FROM people;\<close> empties the table and returns no rows, anything
  else is a syntax error.
\<close>

definition sample_AI :: "ai_request \<Rightarrow> js_error + string" where
  "sample_AI request =
     (if max_tokens request = 500
      then Inr ''```sql\<newline>SELECT SUM(W) FROM teams WHERE teamID = 'NYA' AND yearID = 2024\<newline>```''
      else Inr [])"

definition sample_DB :: "string \<Rightarrow> nat \<Rightarrow> (js_error + row list option) \<times> nat" where
  "sample_DB sql people =
     (if sql = ''DELETE FROM people;'' then (Inr (Some []), 0)
      else if prefix ''SELECT'' sql then (Inr (Some [[(''SUM(W)'', JNum (Finite 94))]]), people)
      else (Inl (JsError ''near syntax error''), people))"

definition sample_env :: "nat env" where
  "sample_env = \<lparr>AI = sample_AI, DB = sample_DB\<rparr>"

definition deleting_AI :: "ai_request \<Rightarrow> js_error + string" where
  "deleting_AI request = Inr ''DELETE FROM people''"

definition deleting_env :: "nat env" where
  "deleting_env = \<lparr>AI = deleting_AI, DB = sample_DB\<rparr>"

definition failing_AI :: "ai_request \<Rightarrow> js_error + string" where
  \<comment> \<open>a model binding that throws on every call\<close>
  "failing_AI request = Inl (JsError ''3040: Capacity temporarily exceeded'')"

definition failing_env :: "nat env" where
  "failing_env = \<lparr>AI = failing_AI, DB = sample_DB\<rparr>"

definition sample_world :: "nat world" where
  "sample_world = \<lparr>db = 3, calls = []\<rparr>"

definition chat_request :: "json \<Rightarrow> request" where
  \<comment> \<open>a \<open>POST /api/chat\<close> whose body parses to the given value\<close>
  "chat_request parsed = \<lparr>http_method = ''POST'', pathname = ''/api/chat'', json_body = Inr parsed\<rparr>"

definition message_body :: "string \<Rightarrow> json" where
  \<comment> \<open>the parsed body \<open>{ "message": m }\<close>\<close>
  "message_body m = JObj [(''message'', JPrim (JStr m))]"

section \<open>Properties\<close>

subsection \<open>Number formatting\<close>

lemma isDigit_nth: "k < 10 \<Longrightarrow> isDigit (''0123456789'' ! k)"
proof -
  assume "k < 10"
  then have "k = 0 \<or> k = 1 \<or> k = 2 \<or> k = 3 \<or> k = 4 \<or> k = 5 \<or> k = 6 \<or> k = 7 \<or> k = 8 \<or> k = 9"
    by arith
  then show ?thesis
    unfolding isDigit_def by (elim disjE) simp_all
qed

lemma isDigit_digit_char: "isDigit (digit_char d)"
  unfolding digit_char_def by (rule isDigit_nth) simp

lemma digits_all_digit: "list_all isDigit (digits n)"
proof (induction n rule: digits.induct)
  case (1 n)
  show ?case
  proof (cases "n < 10")
    case True
    then show ?thesis by (subst digits.simps) (simp add: isDigit_digit_char)
  next
    case False
    with 1 show ?thesis by (subst digits.simps) (simp add: isDigit_digit_char)
  qed
qed

lemma digits_nonempty: "digits n \<noteq> []"
  by (subst digits.simps) simp

lemma not_isDigit_minus: "\<not> isDigit CHR ''-''"
  by (simp add: isDigit_def)

lemma toFixed_two_decimal_places:
  assumes "\<bar>q\<bar> < 10 ^ 21"
  shows "two_decimal_places (toFixed (Finite q) 2)"
proof -
  define n where "n = \<lfloor>\<bar>q\<bar> * 10 ^ 2 + 1 / 2\<rfloor>"
  define m0 where "m0 = digits n"
  define m where "m = (if length m0 \<le> 2 then replicate (3 - length m0) CHR ''0'' @ m0 else m0)"
  define body where "body = take (length m - 2) m @ ''.'' @ drop (length m - 2) m"
  have eq: "toFixed (Finite q) 2 = (if q < 0 then ''-'' else []) @ body"
    using assms by (simp add: toFixed_def Let_def body_def m_def m0_def n_def)
  have m0: "list_all isDigit m0" "m0 \<noteq> []"
    by (simp_all add: m0_def digits_all_digit digits_nonempty)
  have isD0: "isDigit CHR ''0''" by (simp add: isDigit_def)
  have m_dig: "list_all isDigit m"
    using m0 isD0 by (auto simp: m_def list_all_iff)
  have m_len: "3 \<le> length m"
    by (auto simp: m_def)
  have blen: "length body = length m + 1"
    using m_len by (simp add: body_def)
  have b1: "body ! (length body - 3) = CHR ''.''"
    using m_len by (simp add: body_def blen nth_append)
  have b2: "take (length body - 3) body = take (length m - 2) m"
    using m_len by (simp add: body_def blen)
  have b3: "drop (length body - 2) body = drop (length m - 2) m"
    using m_len by (simp add: body_def blen)
  have hdb: "isDigit (hd body)"
  proof -
    have "take (length m - 2) m \<noteq> []" using m_len by auto
    then have "hd body = hd m" by (simp add: body_def hd_append)
    moreover have "m \<noteq> []" using m_len by auto
    ultimately show ?thesis using m_dig by (cases m) auto
  qed
  have bne: "body \<noteq> []" using blen by auto
  have nopre: "\<not> prefix ''-'' body"
    using hdb bne not_isDigit_minus by (cases body) auto
  have c3: "list_all isDigit (take (length body - 3) body)"
    unfolding b2 using m_dig by (auto simp: list_all_iff dest: in_set_takeD)
  have c4: "list_all isDigit (drop (length body - 2) body)"
    unfolding b3 using m_dig by (auto simp: list_all_iff dest: in_set_dropD)
  have c1: "4 \<le> length body" using m_len blen by simp
  note core = c1 b1 c3 c4
  show ?thesis
  proof (cases "q < 0")
    case True
    then show ?thesis using core by (simp add: eq two_decimal_places_def Let_def)
  next
    case False
    then show ?thesis using core nopre by (simp add: eq two_decimal_places_def Let_def)
  qed
qed

subsection \<open>Rendered numbers hold no separator of the table\<close>

lemma isDigit_plain: "isDigit c \<Longrightarrow> c \<noteq> CHR ''|'' \<and> c \<noteq> CHR 0x0A"
  by (auto simp: isDigit_def)

lemma digits_plain: "plain (digits n)"
  using digits_all_digit [of n] isDigit_plain by (auto simp: plain_def list_all_iff)

lemma plain_Nil: "plain []"
  by (simp add: plain_def)

lemma plain_Cons: "plain (c # xs) \<longleftrightarrow> c \<noteq> CHR ''|'' \<and> c \<noteq> CHR 0x0A \<and> plain xs"
  by (auto simp: plain_def)

lemma plain_append: "plain (xs @ ys) \<longleftrightarrow> plain xs \<and> plain ys"
  by (auto simp: plain_def)

lemma plain_take: "plain xs \<Longrightarrow> plain (take n xs)"
  by (auto simp: plain_def dest: in_set_takeD)

lemma plain_drop: "plain xs \<Longrightarrow> plain (drop n xs)"
  by (auto simp: plain_def dest: in_set_dropD)

lemma plain_replicate: "c \<noteq> CHR ''|'' \<Longrightarrow> c \<noteq> CHR 0x0A \<Longrightarrow> plain (replicate n c)"
  by (auto simp: plain_def)

lemma positive_toString_plain: "plain (positive_toString x)"
proof -
  obtain s n where sn: "shortest_digits x = (s, n)" by (cases "shortest_digits x")
  show ?thesis
    unfolding positive_toString_def sn
    by (simp add: Let_def plain_Nil plain_Cons plain_append plain_take plain_drop plain_replicate
        digits_plain)
qed

lemma Number_toString_plain: "plain (Number_toString x)"
proof (cases x)
  case (Finite q)
  show ?thesis
    unfolding Finite Number_toString_def
    by (simp add: plain_Nil plain_Cons plain_append digits_plain positive_toString_plain
        split: jsnum.splits)
qed (simp_all add: Number_toString_def plain_def)


lemma ToString_plain: "(\<And>s. v = JStr s \<Longrightarrow> plain s) \<Longrightarrow> plain (ToString v)"
  by (cases v) (simp_all add: ToString_def Number_toString_plain, simp_all add: plain_def)

subsection \<open>Strings\<close>

lemma trim_prefix_suffix:
  "prefix (trim s) (dropWhile isWhiteSpace s)"
  unfolding trim_def by (metis prefix_def suffix_def suffix_dropWhile rev_append rev_rev_ident)

lemma trim_sublist: "sublist (trim s) s"
proof -
  have "sublist (trim s) (dropWhile isWhiteSpace s)"
    using trim_prefix_suffix by (rule prefix_imp_sublist)
  moreover have "sublist (dropWhile isWhiteSpace s) s"
    using suffix_dropWhile by (rule suffix_imp_sublist)
  ultimately show ?thesis by (rule sublist_order.order_trans)
qed

lemma trim_ends:
  assumes "trim s \<noteq> []"
  shows "\<not> isWhiteSpace (hd (trim s))" and "\<not> isWhiteSpace (last (trim s))"
proof -
  let ?u = "dropWhile isWhiteSpace s"
  from trim_prefix_suffix obtain zs where u: "?u = trim s @ zs"
    by (auto simp: prefix_def)
  with assms have "?u \<noteq> []" and "hd ?u = hd (trim s)" by auto
  then show "\<not> isWhiteSpace (hd (trim s))"
    using hd_dropWhile [of isWhiteSpace s] by simp
  have "rev (trim s) = dropWhile isWhiteSpace (rev ?u)" by (simp add: trim_def)
  moreover from assms have "rev (trim s) \<noteq> []" by simp
  ultimately have "\<not> isWhiteSpace (hd (rev (trim s)))"
    using hd_dropWhile [of isWhiteSpace "rev ?u"] by simp
  with assms show "\<not> isWhiteSpace (last (trim s))" by (simp add: hd_rev)
qed

lemma trim_id:
  assumes "s = [] \<or> (\<not> isWhiteSpace (hd s) \<and> \<not> isWhiteSpace (last s))"
  shows "trim s = s"
proof (cases "s = []")
  case True
  then show ?thesis by (simp add: trim_def)
next
  case False
  with assms have h: "\<not> isWhiteSpace (hd s)" and l: "\<not> isWhiteSpace (last s)" by auto
  from False h have 1: "dropWhile isWhiteSpace s = s" by (cases s) auto
  from False l have 2: "dropWhile isWhiteSpace (rev s) = rev s"
    by (cases "rev s") (auto simp: last_rev [symmetric] simp del: last_rev)
  show ?thesis by (simp add: trim_def 1 2)
qed

lemma trim_trim: "trim (trim s) = trim s"
  by (rule trim_id) (use trim_ends in blast)

subsection \<open>Splitting a joined text\<close>












subsection \<open>Removing code fences\<close>

lemma matchFence_None: "matchFence lit s = None \<longleftrightarrow> \<not> prefix lit s"
  by (simp add: matchFence_def)

lemma replace_global_Nil: "replace_global lit [] = []"
  by (subst replace_global.simps) simp

lemma replace_global_keep:
  "lit \<noteq> [] \<Longrightarrow> \<not> prefix lit (c # t) \<Longrightarrow> replace_global lit (c # t) = c # replace_global lit t"
  by (subst replace_global.simps) (simp add: matchFence_def)

lemma replace_global_skip:
  "lit \<noteq> [] \<Longrightarrow> prefix lit s \<Longrightarrow> \<exists>n. 0 < n \<and> replace_global lit s = replace_global lit (drop n s)"
  by (subst replace_global.simps) (auto simp: matchFence_def)

lemma fence1: "prefix ''`'' (replace_global ''```'' s) \<Longrightarrow> prefix ''`'' s"
proof (cases "prefix ''```'' s")
  case True
  then show ?thesis by (auto simp: prefix_def)
next
  case False
  assume p: "prefix ''`'' (replace_global ''```'' s)"
  show ?thesis
  proof (cases s)
    case Nil
    with p show ?thesis by (simp add: replace_global_Nil)
  next
    case (Cons c t)
    with False p show ?thesis by (simp add: replace_global_keep)
  qed
qed

lemma fence2: "prefix ''``'' (replace_global ''```'' s) \<Longrightarrow> prefix ''``'' s"
proof (cases "prefix ''```'' s")
  case True
  then show ?thesis by (auto simp: prefix_def)
next
  case False
  assume p: "prefix ''``'' (replace_global ''```'' s)"
  show ?thesis
  proof (cases s)
    case Nil
    with p show ?thesis by (simp add: replace_global_Nil)
  next
    case (Cons c t)
    with False have eq: "replace_global ''```'' s = c # replace_global ''```'' t"
      by (simp add: replace_global_keep)
    from p have pc: "prefix ''``'' (c # replace_global ''```'' t)"
      unfolding eq .
    note pc' = pc [unfolded Cons_prefix_Cons]
    from pc' have c: "c = CHR ''`''" by blast
    from pc' have "prefix ''`'' (replace_global ''```'' t)" by blast
    then have "prefix ''`'' t" by (rule fence1)
    with c Cons show ?thesis by simp
  qed
qed

lemma fence3: "prefix ''```'' (replace_global ''```'' s) \<Longrightarrow> prefix ''```'' s"
proof (cases "prefix ''```'' s")
  case True
  then show ?thesis .
next
  case False
  assume p: "prefix ''```'' (replace_global ''```'' s)"
  show ?thesis
  proof (cases s)
    case Nil
    with p show ?thesis by (simp add: replace_global_Nil)
  next
    case (Cons c t)
    with False have eq: "replace_global ''```'' s = c # replace_global ''```'' t"
      by (simp add: replace_global_keep)
    from p have pc: "prefix ''```'' (c # replace_global ''```'' t)"
      unfolding eq .
    note pc' = pc [unfolded Cons_prefix_Cons]
    from pc' have c: "c = CHR ''`''" by blast
    from pc' have "prefix ''``'' (replace_global ''```'' t)" by blast
    then have "prefix ''``'' t" by (rule fence2)
    with c Cons show ?thesis by simp
  qed
qed

lemma replace_global_no_fence: "\<not> sublist ''```'' (replace_global ''```'' s)"
proof (induction s rule: length_induct)
  case (1 s)
  show ?case
  proof (cases "prefix ''```'' s")
    case True
    then obtain n where n: "0 < n" "replace_global ''```'' s = replace_global ''```'' (drop n s)"
      using replace_global_skip [of "''```''" s] by auto
    from True have "s \<noteq> []" by auto
    with n have "length (drop n s) < length s" by simp
    with 1 n show ?thesis by simp
  next
    case False
    show ?thesis
    proof (cases s)
      case Nil
      then show ?thesis by (simp add: replace_global_Nil)
    next
      case (Cons c t)
      with False have eq: "replace_global ''```'' s = c # replace_global ''```'' t"
        by (simp add: replace_global_keep)
      have "\<not> prefix ''```'' (replace_global ''```'' s)"
        using fence3 False by blast
      moreover have "\<not> sublist ''```'' (replace_global ''```'' t)"
        using 1 Cons by simp
      ultimately show ?thesis
        unfolding eq by (simp only: sublist_Cons_right) simp
    qed
  qed
qed

lemma no_fence_snoc:
  assumes "\<not> sublist ''```'' s"
  shows "\<not> sublist ''```'' (s @ '';'')"
proof
  assume "sublist ''```'' (s @ '';'')"
  then have "suffix ''```'' (s @ '';'') \<or> sublist ''```'' s"
    by (simp only: sublist_snoc)
  with assms have "suffix ''```'' (s @ '';'')" by simp
  then show False by (auto simp: suffix_def)
qed

subsection \<open>The fallback formatter is never silent\<close>






subsection \<open>The chat route\<close>



lemma fetch_chat_route:
  "fetch env HTML_CONTENT (chat_request parsed) w =
     (case fetch_chat env (chat_request parsed) w of
        (Inr resp, w') \<Rightarrow> (Inr resp, w')
      | (Inl error, w') \<Rightarrow>
          (case get_message error of
             Inl type_error \<Rightarrow> (Inl type_error, w')
           | Inr m \<Rightarrow>
               (Inr (jsonResponse
                       (JObj [(''success'', JPrim (JBool False)),
                              (''error'', if json_truthy m then m
                                          else JPrim (JStr ''An error occurred''))])
                       500), w')))"
  by (simp add: fetch_def chat_request_def)

lemma get_message_JsError: "get_message (JsError m) = Inr (JPrim (JStr m))"
  by (simp add: get_message_def)

lemma formatSimple_single:
  "formatSimple [[(key, val)]] userQuery =
     (if val = JNull \<or> val = JUndefined then ''No data available.''
      else if str_includes key ''SUM('' then ''The total is '' @ ToString val @ ''.''
      else if str_includes key ''AVG('' then ''The average is '' @ toFixed (parseFloat val) 2 @ ''.''
      else if str_includes key ''COUNT('' then ''The count is '' @ ToString val @ ''.''
      else ''Result: '' @ key @ '' = '' @ ToString val)"
  by (simp add: formatSimple_def keys_def get_def Let_def)

lemma headers_jsonResponse:
  "headers (jsonResponse data st)
     = [(''Content-Type'', ''application/json''), (''Access-Control-Allow-Origin'', ''*'')]"
  by (simp add: jsonResponse_def new_Response_def)

lemma status_jsonResponse: "status (jsonResponse data st) = st"
  by (simp add: jsonResponse_def new_Response_def)

lemma body_jsonResponse: "body (jsonResponse data st) = Some (JSON_stringify data 0)"
  by (simp add: jsonResponse_def new_Response_def)

lemma generateSQL_world:
  "generateSQL env m w = (r, w1) \<Longrightarrow> db w1 = db w \<and> db_calls (calls w1) = db_calls (calls w)"
  by (auto simp: generateSQL_def Let_def db_calls_def split: sum.splits)

lemma executeQuery_world:
  "executeQuery env sql w = (r, w1)
     \<Longrightarrow> db w1 = snd (DB env sql (db w)) \<and> db_calls (calls w1) = db_calls (calls w) @ [sql]"
  by (auto simp: executeQuery_def Let_def db_calls_def split: sum.splits prod.splits)

lemma formatResponse_world:
  "formatResponse env m rs sql w = (r, w1) \<Longrightarrow> db w1 = db w \<and> db_calls (calls w1) = db_calls (calls w)"
  by (auto simp: formatResponse_def Let_def db_calls_def split: sum.splits if_splits)

lemma fetch_chat_cases:
  "fetch_chat env request w = (r, w') \<Longrightarrow>
     (\<exists>error. r = Inl error \<and> w' = w
         \<and> (json_body request = Inl error
             \<or> (\<exists>parsed. json_body request = Inr parsed \<and> destructure_message parsed = Inl error)))
   \<or> (r = Inr (jsonResponse (JObj [(''error'', JPrim (JStr ''Invalid message''))]) 400) \<and> w' = w
         \<and> (\<exists>parsed msg. json_body request = Inr parsed \<and> destructure_message parsed = Inr msg
               \<and> (\<forall>m. msg = JPrim (JStr m) \<longrightarrow> m = [])))
   \<or> (\<exists>parsed m. json_body request = Inr parsed \<and> destructure_message parsed = Inr (JPrim (JStr m))
         \<and> m \<noteq> []
         \<and> ((\<exists>error. r = Inl error \<and> generateSQL env m w = (Inl error, w'))
            \<or> (\<exists>sql w1.
                  generateSQL env m w = (Inr sql, w1)
                  \<and> ((\<exists>error. r = Inl error \<and> executeQuery env sql w1 = (Inl error, w'))
                     \<or> (\<exists>rs w2 response.
                           executeQuery env sql w1 = (Inr rs, w2)
                           \<and> formatResponse env m rs sql w2 = (response, w')
                           \<and> r = Inr (jsonResponse
                                        (JObj [(''success'', JPrim (JBool True)),
                                               (''message'', JPrim (JStr response)),
                                               (''sql'', JPrim (JStr sql)),
                                               (''results'', rows_json rs)])
                                        200))))))"
  unfolding fetch_chat_def
  by (cases "json_body request")
     (auto simp: Let_def json_truthy_def truthy_def typeof_def ToString_def
           split: sum.splits prod.splits json.splits jsval.splits if_splits)

lemma json_body_chat_request: "json_body (chat_request parsed) = Inr parsed"
  by (simp add: chat_request_def)

lemma fetch_chat_body:
  "json_body request = Inr parsed \<Longrightarrow> fetch_chat env request w = fetch_chat env (chat_request parsed) w"
  by (simp add: fetch_chat_def json_body_chat_request)

lemma input_guard_rejects:
  assumes "destructure_message parsed = Inr msg" and "\<forall>m. msg = JPrim (JStr m) \<longrightarrow> m = []"
  shows "fetch env HTML_CONTENT (chat_request parsed) w
           = (Inr (jsonResponse (JObj [(''error'', JPrim (JStr ''Invalid message''))]) 400), w)"
  using assms
  by (auto simp: fetch_chat_route fetch_chat_def json_body_chat_request json_truthy_def truthy_def
      typeof_def split: json.splits jsval.splits)

lemma fetch_chat_Inr:
  assumes "fetch_chat env request w = (Inr resp, w')"
  shows "headers resp = [(''Content-Type'', ''application/json''), (''Access-Control-Allow-Origin'', ''*'')]
       \<and> ((\<exists>m sql rs.
              resp = jsonResponse
                       (JObj [(''success'', JPrim (JBool True)),
                              (''message'', JPrim (JStr m)),
                              (''sql'', JPrim (JStr sql)),
                              (''results'', rows_json rs)])
                       200)
          \<or> resp = jsonResponse (JObj [(''error'', JPrim (JStr ''Invalid message''))]) 400)"
  using fetch_chat_cases [OF assms] by (auto simp: headers_jsonResponse)

text \<open>
  Every outcome of the chat route. What the \<open>try\<close> block returns is the response: the
  success envelope with status 200, or the envelope of the input guard with status 400.
  What it throws is answered with the 500 envelope when the thrown value has a readable
  message, which every Error object has; the \<open>catch\<close> block itself throws, and no response
  is produced, when the thrown value is \<open>null\<close> or \<open>undefined\<close>.
\<close>

lemma chat_envelope:
  assumes "http_method request = ''POST''" and "pathname request = ''/api/chat''"
  shows "case fetch_chat env request w of
           (Inr resp, w') \<Rightarrow>
             fetch env HTML_CONTENT request w = (Inr resp, w')
             \<and> headers resp = [(''Content-Type'', ''application/json''), (''Access-Control-Allow-Origin'', ''*'')]
             \<and> ((\<exists>m sql rs.
                    resp = jsonResponse
                             (JObj [(''success'', JPrim (JBool True)),
                                    (''message'', JPrim (JStr m)),
                                    (''sql'', JPrim (JStr sql)),
                                    (''results'', rows_json rs)])
                             200)
                \<or> resp = jsonResponse (JObj [(''error'', JPrim (JStr ''Invalid message''))]) 400)
         | (Inl error, w') \<Rightarrow>
             (case get_message error of
                Inr m \<Rightarrow>
                  fetch env HTML_CONTENT request w
                    = (Inr \<lparr>status = 500,
                            headers = [(''Content-Type'', ''application/json''),
                                       (''Access-Control-Allow-Origin'', ''*'')],
                            body = Some (JSON_stringify
                                           (JObj [(''success'', JPrim (JBool False)),
                                                  (''error'', if json_truthy m then m
                                                              else JPrim (JStr ''An error occurred''))])
                                           0)\<rparr>, w')
              | Inl type_error \<Rightarrow> fetch env HTML_CONTENT request w = (Inl type_error, w'))"
proof -
  obtain r w' where fc: "fetch_chat env request w = (r, w')" by (cases "fetch_chat env request w")
  show ?thesis
  proof (cases r)
    case (Inl error)
    with fc assms show ?thesis
      by (simp add: fetch_def jsonResponse_def new_Response_def split: sum.splits)
  next
    case (Inr resp)
    with fc fetch_chat_Inr [of env request w resp w'] assms show ?thesis
      by (auto simp: fetch_def status_jsonResponse)
  qed
qed

lemma chat_failure_500:
  assumes "http_method request = ''POST''" and "pathname request = ''/api/chat''"
    and "fetch_chat env request w = (Inl (JsError e), w')"
  shows "fetch env HTML_CONTENT request w
           = (Inr (jsonResponse
                     (JObj [(''success'', JPrim (JBool False)),
                            (''error'', JPrim (JStr (if e \<noteq> [] then e else ''An error occurred'')))])
                     500), w')"
  using assms by (simp add: fetch_def get_message_JsError json_truthy_def truthy_def)

lemma catch_block_throws:
  assumes "http_method request = ''POST''" and "pathname request = ''/api/chat''"
    and "fetch_chat env request w = (Inl (JsThrown (JPrim JNull)), w')"
  shows "fetch env HTML_CONTENT request w
           = (Inl (JsError ''Cannot read properties of null (reading 'message')''), w')"
  using assms by (simp add: fetch_def get_message_def)

section \<open>The claims\<close>

subsection \<open>C6: the synthesized statement is normalized\<close>

text \<open>
  Claim C6. For every raw text the model returns, the post-processing in \<open>generateSQL\<close>
  yields a string that ends with a semicolon, contains no code fence (no sequence of three
  backquotes), and has no leading or trailing white space; the semicolon is appended only
  when the stripped text does not already end with one.
\<close>
theorem generateSQL_normalized:
  assumes "AI env (generateSQL_request userQuery) = Inr raw"
  shows "\<exists>sql w'. generateSQL env userQuery w = (Inr sql, w')
           \<and> endsWith sql '';''
           \<and> \<not> str_includes sql ''```''
           \<and> trim sql = sql
           \<and> sql = (let s = trim (replace_global ''```'' (replace_global ''```sql'' (trim raw)))
                    in if endsWith s '';'' then s else s @ '';'')"
proof -
  define s where "s = trim (replace_global ''```'' (replace_global ''```sql'' (trim raw)))"
  define sql where "sql = (if endsWith s '';'' then s else s @ '';'')"
  have gen: "generateSQL env userQuery w
      = (Inr sql, w\<lparr>calls := calls w @ [AiRun (generateSQL_request userQuery)]\<rparr>)"
    using assms by (simp add: generateSQL_def Let_def sql_def s_def)
  have ends: "endsWith sql '';''"
    by (simp add: sql_def endsWith_def)
  have nf_s: "\<not> sublist ''```'' s"
    unfolding s_def using replace_global_no_fence trim_sublist sublist_order.order_trans by blast
  have nf: "\<not> str_includes sql ''```''"
    unfolding str_includes_def sql_def using nf_s no_fence_snoc by simp
  have semi: "\<not> isWhiteSpace CHR '';''" by (simp add: isWhiteSpace_def)
  have trimmed: "trim sql = sql"
  proof (rule trim_id)
    have s_ends: "s = [] \<or> (\<not> isWhiteSpace (hd s) \<and> \<not> isWhiteSpace (last s))"
      unfolding s_def using trim_ends by blast
    show "sql = [] \<or> (\<not> isWhiteSpace (hd sql) \<and> \<not> isWhiteSpace (last sql))"
      using s_ends semi by (auto simp: sql_def hd_append)
  qed
  show ?thesis
    using gen ends nf trimmed by (simp add: Let_def sql_def s_def)
qed

theorem generateSQL_normalized_witness:
  "AI sample_env (generateSQL_request ''How many wins did the Yankees have in 2024?'')
     = Inr ''```sql\<newline>SELECT SUM(W) FROM teams WHERE teamID = 'NYA' AND yearID = 2024\<newline>```''
   \<and> fst (generateSQL sample_env ''How many wins did the Yankees have in 2024?'' sample_world)
     = Inr ''SELECT SUM(W) FROM teams WHERE teamID = 'NYA' AND yearID = 2024;''
   \<and> (\<exists>sql w'. generateSQL sample_env ''How many wins did the Yankees have in 2024?'' sample_world = (Inr sql, w')
           \<and> endsWith sql '';''
           \<and> \<not> str_includes sql ''```''
           \<and> trim sql = sql
           \<and> sql = (let s = trim (replace_global ''```'' (replace_global ''```sql''
                              (trim ''```sql\<newline>SELECT SUM(W) FROM teams WHERE teamID = 'NYA' AND yearID = 2024\<newline>```'')))
                    in if endsWith s '';'' then s else s @ '';''))"
proof -
  have h: "AI sample_env (generateSQL_request ''How many wins did the Yankees have in 2024?'')
     = Inr ''```sql\<newline>SELECT SUM(W) FROM teams WHERE teamID = 'NYA' AND yearID = 2024\<newline>```''"
    by (simp add: sample_env_def sample_AI_def generateSQL_request_def)
  have v: "fst (generateSQL sample_env ''How many wins did the Yankees have in 2024?'' sample_world)
     = Inr ''SELECT SUM(W) FROM teams WHERE teamID = 'NYA' AND yearID = 2024;''"
    by code_simp
  show ?thesis
    using generateSQL_normalized [OF h, of sample_world] h v by blast
qed


subsection \<open>C10: the fallback answer does not depend on the question\<close>

text \<open>
  Claim C10. The output of the fallback formatter \<open>formatSimple\<close> is the same for any two
  values of its parameter \<open>userQuery\<close>: it is a function of the result rows alone.
\<close>
theorem formatSimple_ignores_userQuery:
  "formatSimple results q1 = formatSimple results q2"
  by (simp add: formatSimple_def)

subsection \<open>C1: a degraded summarization is masked by the fallback formatter\<close>




subsection \<open>C3: an empty result is answered without the model\<close>

text \<open>
  Claim C3. For a result of zero rows, \<open>formatResponse\<close> returns the fixed message that
  suggests a misspelt name, a year outside the data set or a team abbreviation, and the
  summarization model is not called: the record of calls comes back unchanged.
\<close>
theorem formatResponse_empty:
  "formatResponse env userQuery [] sql w = (no_results_message, w)
   \<and> str_includes no_results_message ''The player name might be spelled differently''
   \<and> str_includes no_results_message ''The year might not be in our dataset''
   \<and> str_includes no_results_message ''The team abbreviation might need adjustment''"
proof -
  have "formatResponse env userQuery [] sql w = (no_results_message, w)"
    by (simp add: formatResponse_def)
  moreover have "str_includes no_results_message ''The player name might be spelled differently''"
    by code_simp
  moreover have "str_includes no_results_message ''The year might not be in our dataset''"
    by code_simp
  moreover have "str_includes no_results_message ''The team abbreviation might need adjustment''"
    by code_simp
  ultimately show ?thesis by simp
qed

subsection \<open>C2: the sentences for a single aggregate value\<close>

text \<open>
  Claim C2, as amended. For a result of exactly one row with exactly one column whose value
  is neither \<open>null\<close> nor \<open>undefined\<close>, \<open>formatSimple\<close> returns ``The total is V.'' when the
  column name contains \<open>SUM(\<close>; otherwise ``The average is A.'' when it contains \<open>AVG(\<close>,
  where \<open>A\<close> is \<open>parseFloat(value).toFixed(2)\<close>, which has exactly two decimal places when
  the value is a finite number of magnitude below \<open>10\<^sup>2\<^sup>1\<close>; otherwise ``The count is V.''
  when it contains \<open>COUNT(\<close>. In particular the row \<open>{"SUM(W)": 94}\<close> yields exactly
  ``The total is 94.''. The claim as stated fails: a \<open>null\<close> value yields ``No data
  available.'', a name that contains both \<open>AVG(\<close> and \<open>SUM(\<close> yields the total, and a value
  that is not numeric yields ``The average is NaN.''.
\<close>
theorem formatSimple_aggregate:
  assumes "val \<noteq> JNull" and "val \<noteq> JUndefined"
  shows "(str_includes key ''SUM(''
            \<longrightarrow> formatSimple [[(key, val)]] userQuery = ''The total is '' @ ToString val @ ''.'')
       \<and> (\<not> str_includes key ''SUM('' \<and> str_includes key ''AVG(''
            \<longrightarrow> formatSimple [[(key, val)]] userQuery
                  = ''The average is '' @ toFixed (parseFloat val) 2 @ ''.''
                \<and> (val = JNum (Finite x) \<and> \<bar>x\<bar> < 10 ^ 21
                       \<longrightarrow> two_decimal_places (toFixed (parseFloat val) 2)))
       \<and> (\<not> str_includes key ''SUM('' \<and> \<not> str_includes key ''AVG('' \<and> str_includes key ''COUNT(''
            \<longrightarrow> formatSimple [[(key, val)]] userQuery = ''The count is '' @ ToString val @ ''.'')
       \<and> formatSimple [[(''SUM(W)'', JNum (Finite 94))]] userQuery = ''The total is 94.''"
proof -
  have regression: "formatSimple [[(''SUM(W)'', JNum (Finite 94))]] userQuery = ''The total is 94.''"
  proof -
    have "str_includes ''SUM(W)'' ''SUM(''" by code_simp
    moreover have "ToString (JNum (Finite 94)) = ''94''" by code_simp
    ultimately show ?thesis by (simp add: formatSimple_single)
  qed
  show ?thesis
    using assms regression
    by (auto simp: formatSimple_single parseFloat_def toFixed_two_decimal_places)
qed

theorem formatSimple_aggregate_witness:
  "JNum (Finite (3456 / 1000)) \<noteq> JNull \<and> JNum (Finite (3456 / 1000)) \<noteq> JUndefined
   \<and> str_includes ''SUM(SO)'' ''SUM(''
   \<and> formatSimple [[(''SUM(SO)'', JNum (Finite 255))]] ''q'' = ''The total is 255.''
   \<and> \<not> str_includes ''AVG(ERA)'' ''SUM('' \<and> str_includes ''AVG(ERA)'' ''AVG(''
   \<and> formatSimple [[(''AVG(ERA)'', JNum (Finite (3456 / 1000)))]] ''q'' = ''The average is 3.46.''
   \<and> two_decimal_places ''3.46''
   \<and> \<not> str_includes ''COUNT(*)'' ''SUM('' \<and> \<not> str_includes ''COUNT(*)'' ''AVG(''
   \<and> str_includes ''COUNT(*)'' ''COUNT(''
   \<and> formatSimple [[(''COUNT(*)'', JNum (Finite 12))]] ''q'' = ''The count is 12.''"
proof -
  let ?avg = "JNum (Finite (3456 / 1000))"
  have k1: "str_includes ''SUM(SO)'' ''SUM(''" by code_simp
  have k2: "\<not> str_includes ''AVG(ERA)'' ''SUM(''" "str_includes ''AVG(ERA)'' ''AVG(''" by code_simp+
  have k3: "\<not> str_includes ''COUNT(*)'' ''SUM(''" "\<not> str_includes ''COUNT(*)'' ''AVG(''"
    "str_includes ''COUNT(*)'' ''COUNT(''" by code_simp+
  have v1: "ToString (JNum (Finite 255)) = ''255''" by code_simp
  have v2: "toFixed (parseFloat ?avg) 2 = ''3.46''" by code_simp
  have v3: "ToString (JNum (Finite 12)) = ''12''" by code_simp
  have a: "?avg = JNum (Finite (3456 / 1000)) \<and> \<bar>3456 / 1000 :: rat\<bar> < 10 ^ 21" by simp
  have n: "?avg \<noteq> JNull" "?avg \<noteq> JUndefined" by simp_all
  have s: "formatSimple [[(''SUM(SO)'', JNum (Finite 255))]] ''q'' = ''The total is 255.''"
    using formatSimple_aggregate [of "JNum (Finite 255)" "''SUM(SO)''" "''q''"] k1 v1 by simp
  have c: "formatSimple [[(''COUNT(*)'', JNum (Finite 12))]] ''q'' = ''The count is 12.''"
    using formatSimple_aggregate [of "JNum (Finite 12)" "''COUNT(*)''" "''q''"] k3 v3 by simp
  note avg = formatSimple_aggregate [OF n, of "''AVG(ERA)''" "''q''" "3456 / 1000"]
  have a1: "formatSimple [[(''AVG(ERA)'', ?avg)]] ''q'' = ''The average is 3.46.''"
    using avg k2 v2 by simp
  have a2: "two_decimal_places (toFixed (parseFloat ?avg) 2)"
    using avg k2 a by blast
  show ?thesis
    using n k1 k2 k3 s c a1 a2 [unfolded v2] by simp
qed

theorem formatSimple_aggregate_counterexample:
  "formatSimple [[(''SUM(W)'', JNull)]] ''How many wins did the Expos have in 2024?'' = ''No data available.''
   \<and> formatSimple [[(''SUM(W)'', JNull)]] ''How many wins did the Expos have in 2024?''
       \<noteq> ''The total is '' @ ToString JNull @ ''.''
   \<and> str_includes ''AVG(W) / SUM(G)'' ''AVG(''
   \<and> formatSimple [[(''AVG(W) / SUM(G)'', JNum (Finite (1 / 2)))]] ''What share of games is won?''
       = ''The total is 0.5.''
   \<and> str_includes ''COALESCE(AVG(ERA), 'n/a')'' ''AVG(''
   \<and> formatSimple [[(''COALESCE(AVG(ERA), 'n/a')'', JStr ''n/a'')]] ''What was the average ERA in 1900?''
       = ''The average is NaN.''"
  by code_simp

subsection \<open>C7: the fallback table\<close>




subsection \<open>C5: every answer of the chat route is a JSON envelope\<close>

text \<open>
  Claim C5 says that every response of the \<open>POST /api/chat\<close> route is a JSON envelope with
  the permissive cross-origin header: status 200 on success, status 400 with \<open>{error}\<close> on a
  client input error, status 500 with \<open>{success: false, error}\<close> on a pipeline failure. The
  lemma \<open>chat_envelope\<close> shows what the handler does in every case: the \<open>try\<close> block returns
  the 200 or the 400 envelope, and an Error thrown in it is turned into the 500 envelope.
  The request body \<open>null\<close> is a client input error that is not answered with 400:
  destructuring it throws, and the handler answers with the 500 envelope. This is the
  defect of claim C4, evaluated here on the whole response.
\<close>
theorem chat_null_body_envelope:
  "fetch env HTML_CONTENT (chat_request (JPrim JNull)) w
     = (Inr \<lparr>status = 500,
             headers = [(''Content-Type'', ''application/json''), (''Access-Control-Allow-Origin'', ''*'')],
             body = Some (JSON_stringify
                            (JObj [(''success'', JPrim (JBool False)),
                                   (''error'', JPrim (JStr ''Cannot destructure property 'message' of '(intermediate value)' as it is null.''))])
                            0)\<rparr>, w)
   \<and> fetch env HTML_CONTENT (chat_request (JPrim JNull)) w
       \<noteq> (Inr (jsonResponse (JObj [(''error'', JPrim (JStr ''Invalid message''))]) 400), w)"
  by (simp add: fetch_chat_route fetch_chat_def json_body_chat_request destructure_message_def
      get_message_JsError json_truthy_def truthy_def jsonResponse_def new_Response_def)

subsection \<open>C8: the other routes\<close>

text \<open>
  Claim C8, as amended. Every request whose method is not \<open>OPTIONS\<close>, that is not
  \<open>POST /api/chat\<close>, and whose path is neither \<open>/\<close> nor \<open>/index.html\<close> is answered with status
  404 and the plain text ``Not found''; every request to \<open>/\<close> or \<open>/index.html\<close> whose method
  is not \<open>OPTIONS\<close>, whatever that method is, is answered with status 200, content type
  \<open>text/html\<close> and the static document. The claim as stated fails: the document route does
  not look at the method, so \<open>POST /\<close> is answered with the document and not with 404.
\<close>
theorem fetch_routes:
  "(http_method request \<noteq> ''OPTIONS''
      \<and> \<not> (pathname request = ''/api/chat'' \<and> http_method request = ''POST'')
      \<and> pathname request \<noteq> ''/'' \<and> pathname request \<noteq> ''/index.html''
    \<longrightarrow> fetch env HTML_CONTENT request w
          = (Inr \<lparr>status = 404, headers = [(''Content-Type'', ''text/plain;charset=UTF-8'')],
                  body = Some ''Not found''\<rparr>, w))
   \<and> (http_method request \<noteq> ''OPTIONS''
        \<and> (pathname request = ''/'' \<or> pathname request = ''/index.html'')
      \<longrightarrow> fetch env HTML_CONTENT request w
            = (Inr \<lparr>status = 200, headers = [(''Content-Type'', ''text/html'')],
                    body = Some HTML_CONTENT\<rparr>, w))"
  by (auto simp: fetch_def new_Response_def)

theorem fetch_routes_witness:
  "fetch sample_env ''<!DOCTYPE html>''
     \<lparr>http_method = ''GET'', pathname = ''/favicon.ico'', json_body = Inl (JsError ''Unexpected end of JSON input'')\<rparr>
     sample_world
     = (Inr \<lparr>status = 404, headers = [(''Content-Type'', ''text/plain;charset=UTF-8'')],
             body = Some ''Not found''\<rparr>, sample_world)
   \<and> fetch sample_env ''<!DOCTYPE html>''
       \<lparr>http_method = ''GET'', pathname = ''/api/chat'', json_body = Inl (JsError ''Unexpected end of JSON input'')\<rparr>
       sample_world
       = (Inr \<lparr>status = 404, headers = [(''Content-Type'', ''text/plain;charset=UTF-8'')],
               body = Some ''Not found''\<rparr>, sample_world)
   \<and> fetch sample_env ''<!DOCTYPE html>''
       \<lparr>http_method = ''GET'', pathname = ''/index.html'', json_body = Inl (JsError ''Unexpected end of JSON input'')\<rparr>
       sample_world
       = (Inr \<lparr>status = 200, headers = [(''Content-Type'', ''text/html'')],
               body = Some ''<!DOCTYPE html>''\<rparr>, sample_world)"
proof -
  let ?e = "Inl (JsError ''Unexpected end of JSON input'') :: js_error + json"
  let ?a = "\<lparr>http_method = ''GET'', pathname = ''/favicon.ico'', json_body = ?e\<rparr>"
  let ?b = "\<lparr>http_method = ''GET'', pathname = ''/api/chat'', json_body = ?e\<rparr>"
  let ?c = "\<lparr>http_method = ''GET'', pathname = ''/index.html'', json_body = ?e\<rparr>"
  show ?thesis
    using fetch_routes [of ?a sample_env "''<!DOCTYPE html>''" sample_world]
      fetch_routes [of ?b sample_env "''<!DOCTYPE html>''" sample_world]
      fetch_routes [of ?c sample_env "''<!DOCTYPE html>''" sample_world]
    by simp
qed

theorem fetch_routes_counterexample:
  "fetch sample_env ''<!DOCTYPE html>''
     \<lparr>http_method = ''POST'', pathname = ''/'', json_body = Inl (JsError ''Unexpected end of JSON input'')\<rparr>
     sample_world
     = (Inr \<lparr>status = 200, headers = [(''Content-Type'', ''text/html'')],
             body = Some ''<!DOCTYPE html>''\<rparr>, sample_world)
   \<and> status_of (fst (fetch sample_env ''<!DOCTYPE html>''
                       \<lparr>http_method = ''POST'', pathname = ''/'',
                          json_body = Inl (JsError ''Unexpected end of JSON input'')\<rparr>
                       sample_world)) \<noteq> Some 404"
  by (simp add: fetch_def new_Response_def status_of_def)

subsection \<open>C9: what a request does to the database\<close>

text \<open>
  Claim C9, as amended. A request either makes no engine call and leaves the database as
  it was, or it hands exactly one statement to the engine, the synthesized SQL string as
  it is, and leaves the database in the state in which the engine left it after that one
  statement; the pipeline itself writes nothing. The claim as stated fails: no step
  between synthesis and execution restricts the statement to reads, so a synthesized
  \<open>DELETE\<close> is executed.
\<close>
theorem database_frame:
  "(db (snd (fetch env HTML_CONTENT request w)) = db w
      \<and> db_calls (calls (snd (fetch env HTML_CONTENT request w))) = db_calls (calls w))
   \<or> (\<exists>parsed m sql w1.
         json_body request = Inr parsed
         \<and> destructure_message parsed = Inr (JPrim (JStr m))
         \<and> generateSQL env m w = (Inr sql, w1)
         \<and> db (snd (fetch env HTML_CONTENT request w)) = snd (DB env sql (db w))
         \<and> db_calls (calls (snd (fetch env HTML_CONTENT request w))) = db_calls (calls w) @ [sql])"
proof (cases "http_method request \<noteq> ''OPTIONS'' \<and> pathname request = ''/api/chat''
                \<and> http_method request = ''POST''")
  case False
  then show ?thesis by (auto simp: fetch_def)
next
  case True
  obtain r w' where fc: "fetch_chat env request w = (r, w')" by (cases "fetch_chat env request w")
  with True have w': "snd (fetch env HTML_CONTENT request w) = w'"
    by (auto simp: fetch_def split: sum.splits)
  from fetch_chat_cases [OF fc] show ?thesis
    unfolding w'
    by (elim disjE exE conjE)
       (auto dest!: generateSQL_world executeQuery_world formatResponse_world)
qed

theorem database_frame_counterexample:
  "db sample_world = 3
   \<and> fst (generateSQL deleting_env ''Remove every player'' sample_world) = Inr ''DELETE FROM people;''
   \<and> db (snd (fetch deleting_env ''<!DOCTYPE html>''
                 (chat_request (message_body ''Remove every player'')) sample_world)) = 0
   \<and> status_of (fst (fetch deleting_env ''<!DOCTYPE html>''
                       (chat_request (message_body ''Remove every player'')) sample_world)) = Some 200"
  by code_simp

subsection \<open>C4: the input guard\<close>

text \<open>
  Claim C4 says that a request whose message is a non-empty string is accepted and that a
  request whose message field is missing or not a string is answered with status 400 before
  any model or database call. The lemmas \<open>fetch_chat_accepts\<close> and \<open>input_guard_rejects\<close> show
  this for every parsed body that can be destructured. The body \<open>null\<close>, which is valid JSON
  and has no message field, is the exception: destructuring it throws, and the handler
  answers with status 500 (still before any call, the state is unchanged).
\<close>
theorem chat_null_body:
  "fetch env HTML_CONTENT (chat_request (JPrim JNull)) w
     = (Inr (jsonResponse
               (JObj [(''success'', JPrim (JBool False)),
                      (''error'', JPrim (JStr ''Cannot destructure property 'message' of '(intermediate value)' as it is null.''))])
               500), w)
   \<and> status_of (fst (fetch env HTML_CONTENT (chat_request (JPrim JNull)) w)) = Some 500"
  by (simp add: fetch_chat_route fetch_chat_def json_body_chat_request destructure_message_def
      get_message_JsError json_truthy_def truthy_def status_of_def status_jsonResponse)

end
